theory Spec2Isabelle
  imports Complex_Main "HOL-Library.FSet" "HOL-Library.Sublist" "HOL-Library.AList"
begin

chapter \<open>The auction crawler: embedding\<close>

section \<open>retry.py: bounded retry with backoff\<close>











section \<open>checkpoint.py: completed pages per auction\<close>

text \<open>
  \<^verbatim>\<open>pages_done: Dict[str, Set[int]]\<close> is a finite map from auction ids to finite sets
  of page numbers. The backing file is part of the state of the world: \<open>None\<close> when the
  path does not exist, otherwise the JSON document it holds. \<^verbatim>\<open>save\<close> writes
  \<^verbatim>\<open>{"pages_done": {k: sorted(list(v))}}\<close>; \<^verbatim>\<open>load\<close> reads
  \<^verbatim>\<open>data.get("pages_done", {})\<close> and turns every list back into a set. The text
  encoding done by \<^verbatim>\<open>json.dumps\<close> and undone by \<^verbatim>\<open>json.loads\<close> belongs to the
  standard library; the document is kept as the value those two functions exchange.
\<close>

record CrawlCheckpoint =
  pages_done :: "string \<rightharpoonup> int fset"

record checkpoint_doc =
  doc_pages_done :: "(string \<rightharpoonup> int list) option"

type_synonym checkpoint_file = "checkpoint_doc option"

definition new_checkpoint :: CrawlCheckpoint where
  "new_checkpoint = \<lparr>pages_done = Map.empty\<rparr>"

definition load :: "checkpoint_file \<Rightarrow> CrawlCheckpoint \<Rightarrow> CrawlCheckpoint" where
  "load file cp =
     (case file of
        None \<Rightarrow> cp
      | Some data \<Rightarrow>
          (let d = (case doc_pages_done data of None \<Rightarrow> Map.empty | Some m \<Rightarrow> m)
           in cp\<lparr>pages_done := (\<lambda>k. map_option fset_of_list (d k))\<rparr>))"

definition save :: "CrawlCheckpoint \<Rightarrow> checkpoint_file" where
  "save cp = Some \<lparr>doc_pages_done = Some (\<lambda>k. map_option sorted_list_of_fset (pages_done cp k))\<rparr>"

definition is_page_done :: "CrawlCheckpoint \<Rightarrow> string \<Rightarrow> int \<Rightarrow> bool" where
  "is_page_done cp auction_id page =
     (page |\<in>| (case pages_done cp auction_id of None \<Rightarrow> {||} | Some s \<Rightarrow> s))"

definition mark_page_done :: "string \<Rightarrow> int \<Rightarrow> CrawlCheckpoint \<Rightarrow> CrawlCheckpoint" where
  "mark_page_done auction_id page cp =
     (let s = (case pages_done cp auction_id of None \<Rightarrow> {||} | Some s \<Rightarrow> s)
      in cp\<lparr>pages_done := (pages_done cp)(auction_id \<mapsto> finsert page s)\<rparr>)"

text \<open>A run of \<^verbatim>\<open>mark_page_done\<close> calls, in order.\<close>

definition mark_all :: "(string \<times> int) list \<Rightarrow> CrawlCheckpoint \<Rightarrow> CrawlCheckpoint" where
  "mark_all ps cp = foldl (\<lambda>c (a, p). mark_page_done a p c) cp ps"

section \<open>robots.py: fail-open robots policy\<close>

text \<open>
  The policy object holds a \<^verbatim>\<open>RobotFileParser\<close> and the flag \<^verbatim>\<open>_loaded\<close>. The rule
  set of the parser and its evaluation \<^verbatim>\<open>can_fetch(agent, url)\<close> come from the standard
  library: the rule set is a type parameter and the evaluation a function parameter.
  The body of \<^verbatim>\<open>load\<close> is one \<^verbatim>\<open>try\<close> block; its outcome is either that some
  statement raised (the parser is then left in whatever state it reached) or that the
  file was fetched and parsed.
\<close>

record 'r RobotsPolicy =
  base_url :: string
  user_agent :: string
  rp :: 'r
  loaded :: bool

datatype 'r load_outcome = LoadRaised 'r | LoadParsed 'r

definition robots_init :: "string \<Rightarrow> string \<Rightarrow> 'r \<Rightarrow> 'r RobotsPolicy" where
  "robots_init base agent fresh = \<lparr>base_url = base, user_agent = agent, rp = fresh, loaded = False\<rparr>"

definition robots_load :: "'r load_outcome \<Rightarrow> 'r RobotsPolicy \<Rightarrow> 'r RobotsPolicy" where
  "robots_load outcome pol =
     (case outcome of
        LoadParsed r \<Rightarrow> pol\<lparr>rp := r, loaded := True\<rparr>
      | LoadRaised r \<Rightarrow> pol\<lparr>rp := r, loaded := False\<rparr>)"

definition can_fetch :: "('r \<Rightarrow> string \<Rightarrow> string \<Rightarrow> bool) \<Rightarrow> 'r RobotsPolicy \<Rightarrow> string \<Rightarrow> bool" where
  "can_fetch rp_can_fetch pol u =
     (if \<not> loaded pol then True else rp_can_fetch (rp pol) (user_agent pol) u)"

section \<open>rate\_limit.py: interval rate limiter\<close>



section \<open>Python strings\<close>

text \<open>
  A Python \<^verbatim>\<open>str\<close> is a sequence of code points. The model keeps the code points
  below 256 (ASCII and the Latin-1 supplement, which covers the Portuguese letters the
  crawler looks for), one \<^typ>\<open>char\<close> each. \<^verbatim>\<open>str.isspace\<close>, \<^verbatim>\<open>str.lower\<close> and
  \<^verbatim>\<open>str.strip\<close> are given on that range as the Unicode database defines them.
  \<^verbatim>\<open>needle in haystack\<close> is \<^const>\<open>sublist\<close>: a contiguous occurrence.
\<close>

definition code_point :: "char \<Rightarrow> nat" where
  "code_point c = of_char c"

definition is_space :: "char \<Rightarrow> bool" where
  "is_space c =
     (let n = code_point c
      in (9 \<le> n \<and> n \<le> 13) \<or> (28 \<le> n \<and> n \<le> 32) \<or> n = 133 \<or> n = 160)"

definition is_upper :: "char \<Rightarrow> bool" where
  "is_upper c =
     (let n = code_point c
      in (65 \<le> n \<and> n \<le> 90) \<or> (192 \<le> n \<and> n \<le> 222 \<and> n \<noteq> 215))"

definition lower_char :: "char \<Rightarrow> char" where
  "lower_char c = (if is_upper c then char_of (code_point c + 32) else c)"

definition lower :: "string \<Rightarrow> string" where
  "lower s = map lower_char s"

definition strip :: "string \<Rightarrow> string" where
  "strip s = rev (dropWhile is_space (rev (dropWhile is_space s)))"

text \<open>\<^verbatim>\<open>sep.join(parts)\<close>\<close>

fun join :: "string \<Rightarrow> string list \<Rightarrow> string" where
  "join sep [] = []"
| "join sep [x] = x"
| "join sep (x # xs) = x @ sep @ join sep xs"

section \<open>models.py: the canonical records\<close>

text \<open>
  \<^verbatim>\<open>datetime\<close> values are only produced by library parsers and carried along; they
  are kept as their six calendar fields. \<^verbatim>\<open>float\<close> values are taken as the real
  numbers they denote (no rounding, no NaN).
\<close>

datatype datetime = Datetime int int int int int int

record Auction =
  auction_id :: string
  url :: string
  number :: "string option"
  city :: "string option"
  yard :: "string option"
  organizer :: "string option"
  status :: "string option"
  ends_at :: "datetime option"

record Lot =
  auction_id :: string
  lot_id :: string
  description_short :: string
  brand_model :: "string option"
  year :: "int option"
  situation :: "string option"
  start_bid :: "real option"
  ends_at :: "datetime option"
  lot_url :: "string option"
  image_urls :: "string list"
  requires_login :: bool
  raw_text :: "string option"

section \<open>filters.py: the filter engine\<close>

text \<open>\<^verbatim>\<open>_norm(s) = (s or "").strip().lower()\<close>\<close>

definition filters_norm :: "string option \<Rightarrow> string" where
  "filters_norm s = lower (strip (case s of None \<Rightarrow> [] | Some t \<Rightarrow> t))"






definition norm_keywords :: "string list option \<Rightarrow> string list" where
  "norm_keywords ks =
     filter (\<lambda>k. k \<noteq> []) (map (\<lambda>k. filters_norm (Some k)) (case ks of None \<Rightarrow> [] | Some xs \<Rightarrow> xs))"



text \<open>
  The criteria one by one, as the specification lists them: \<open>configured\<close> says
  whether the configuration sets a criterion, \<open>verdict\<close> whether a lot passes it.
\<close>

datatype criterion =
  LoginRequired | Sucata | TipoVeiculo | Marcas | AnoMin | AnoMax | ValorMax | KeywordsAll | KeywordsAny

definition criteria :: "criterion list" where
  "criteria = [LoginRequired, Sucata, TipoVeiculo, Marcas, AnoMin, AnoMax, ValorMax, KeywordsAll, KeywordsAny]"






section \<open>The \<^verbatim>\<open>re\<close> module: backtracking regular expressions\<close>

text \<open>
  The parsers search their input with regular expressions. A pattern is a term of
  \<open>rx\<close>; \<open>rx_run\<close> gives, for a position in the subject, every way the pattern can
  match from there, in the order in which Python's backtracking matcher tries them:
  the first alternative before the second, a greedy star by the longest run first, a
  lazy star by the shortest, an iteration of a star only when it consumes input. A
  position is the text before it (reversed), the text after it and the groups captured
  so far. \<^verbatim>\<open>re.search\<close> takes the first way at the leftmost position that has one.
  The classes \<^verbatim>\<open>\d\<close>, \<^verbatim>\<open>\s\<close>, \<^verbatim>\<open>\w\<close> and the boundary \<^verbatim>\<open>\b\<close> are those of
  \<^verbatim>\<open>str\<close> patterns on the modelled code points.
\<close>

definition is_digit :: "char \<Rightarrow> bool" where
  "is_digit c = (let n = code_point c in 48 \<le> n \<and> n \<le> 57)"

definition is_word :: "char \<Rightarrow> bool" where
  "is_word c =
     (let n = code_point c
      in (48 \<le> n \<and> n \<le> 57) \<or> (65 \<le> n \<and> n \<le> 90) \<or> n = 95 \<or> (97 \<le> n \<and> n \<le> 122)
         \<or> n = 170 \<or> n = 178 \<or> n = 179 \<or> n = 181 \<or> n = 185 \<or> n = 186
         \<or> (188 \<le> n \<and> n \<le> 190) \<or> (192 \<le> n \<and> n \<le> 214) \<or> (216 \<le> n \<and> n \<le> 246)
         \<or> (248 \<le> n \<and> n \<le> 255))"

definition in_range :: "char \<Rightarrow> char \<Rightarrow> char \<Rightarrow> bool" where
  "in_range lo hi c = (code_point lo \<le> code_point c \<and> code_point c \<le> code_point hi)"

datatype rx =
    Chr "char \<Rightarrow> bool"
  | Eps
  | Cat rx rx
  | Alt rx rx
  | Star rx
  | LazyStar rx
  | Bnd
  | Eos
  | Grp nat rx

type_synonym rx_state = "string \<times> string \<times> (nat \<times> string) list"

definition at_boundary :: "string \<Rightarrow> string \<Rightarrow> bool" where
  "at_boundary l r =
     ((case l of [] \<Rightarrow> False | c # _ \<Rightarrow> is_word c) \<noteq> (case r of [] \<Rightarrow> False | c # _ \<Rightarrow> is_word c))"

text \<open>
  The first argument bounds the iterations of a star. An iteration must consume a
  character, so a bound of the length of the remaining subject is never reached.
\<close>

fun rx_run :: "nat \<Rightarrow> rx \<Rightarrow> rx_state \<Rightarrow> rx_state list" where
  "rx_run n (Chr p) (l, r, g) = (case r of [] \<Rightarrow> [] | c # cs \<Rightarrow> if p c then [(c # l, cs, g)] else [])"
| "rx_run n Eps s = [s]"
| "rx_run n (Cat a b) s = concat (map (rx_run n b) (rx_run n a s))"
| "rx_run n (Alt a b) s = rx_run n a s @ rx_run n b s"
| "rx_run n (Star a) (l, r, g) =
     concat (map (\<lambda>(l', r', g').
        if length r' < length r then (case n of 0 \<Rightarrow> [] | Suc m \<Rightarrow> rx_run m (Star a) (l', r', g')) else [])
       (rx_run n a (l, r, g))) @ [(l, r, g)]"
| "rx_run n (LazyStar a) (l, r, g) =
     (l, r, g) # concat (map (\<lambda>(l', r', g').
        if length r' < length r then (case n of 0 \<Rightarrow> [] | Suc m \<Rightarrow> rx_run m (LazyStar a) (l', r', g')) else [])
       (rx_run n a (l, r, g)))"
| "rx_run n Bnd (l, r, g) = (if at_boundary l r then [(l, r, g)] else [])"
| "rx_run n Eos (l, r, g) = (if r = [] \<or> r = [CHR 0x0A] then [(l, r, g)] else [])"
| "rx_run n (Grp k a) (l, r, g) =
     map (\<lambda>(l', r', g'). (l', r', (k, take (length r - length r') r) # g')) (rx_run n a (l, r, g))"

text \<open>A match object: where the match starts and ends, and the text of each group (group 0 is the whole match).\<close>

record rx_match =
  m_start :: nat
  m_end :: nat
  m_groups :: "(nat \<times> string) list"

fun search_from :: "rx \<Rightarrow> string \<Rightarrow> string \<Rightarrow> rx_match option" where
  "search_from re l r =
     (case rx_run (length r) re (l, r, []) of
        (l', r', g) # _ \<Rightarrow>
          Some \<lparr>m_start = length l, m_end = length l', m_groups = (0, take (length r - length r') r) # g\<rparr>
      | [] \<Rightarrow> (case r of [] \<Rightarrow> None | c # cs \<Rightarrow> search_from re (c # l) cs))"

definition re_search :: "rx \<Rightarrow> string \<Rightarrow> rx_match option" where
  "re_search re s = search_from re [] s"

definition group :: "rx_match \<Rightarrow> nat \<Rightarrow> string option" where
  "group m k = map_of (m_groups m) k"

text \<open>
  \<^verbatim>\<open>re.sub(pattern, repl, s)\<close> for a replacement without group references: every
  match is replaced, left to right; after an empty match the next match at the same
  place must not be empty.
\<close>

function sub_from :: "rx \<Rightarrow> string \<Rightarrow> bool \<Rightarrow> string \<Rightarrow> string \<Rightarrow> string" where
  "sub_from re repl must_advance l r =
     (case filter (\<lambda>(l', r', g). \<not> must_advance \<or> length r' < length r) (rx_run (length r) re (l, r, [])) of
        (l', r', g) # _ \<Rightarrow>
          repl @ (if length r' < length r then sub_from re repl False l' r'
                  else if must_advance then [] else sub_from re repl True l r)
      | [] \<Rightarrow> (case r of [] \<Rightarrow> [] | c # cs \<Rightarrow> c # sub_from re repl False (c # l) cs))"
  by pat_completeness auto
termination
  by (relation "measures [\<lambda>(re, repl, ma, l, r). length r, \<lambda>(re, repl, ma, l, r). if ma then 0 else 1]") auto

definition re_sub :: "rx \<Rightarrow> string \<Rightarrow> string \<Rightarrow> string" where
  "re_sub re repl s = sub_from re repl False [] s"

text \<open>Pattern syntax: literals, with and without \<^verbatim>\<open>IGNORECASE\<close>, \<^verbatim>\<open>+\<close>, \<^verbatim>\<open>?\<close>, \<^verbatim>\<open>+?\<close>, \<^verbatim>\<open>{m,n}\<close>, sequences.\<close>

definition rx_lit :: "string \<Rightarrow> rx" where
  "rx_lit s = foldr (\<lambda>c r. Cat (Chr (\<lambda>x. x = c)) r) s Eps"

definition rx_lit_ci :: "string \<Rightarrow> rx" where
  "rx_lit_ci s = foldr (\<lambda>c r. Cat (Chr (\<lambda>x. lower_char x = lower_char c)) r) s Eps"

definition one_of :: "string \<Rightarrow> char \<Rightarrow> bool" where
  "one_of s c = (c \<in> set s)"

definition one_of_ci :: "string \<Rightarrow> char \<Rightarrow> bool" where
  "one_of_ci s c = (lower_char c \<in> set (lower s))"

definition rx_plus :: "rx \<Rightarrow> rx" where
  "rx_plus a = Cat a (Star a)"

definition rx_opt :: "rx \<Rightarrow> rx" where
  "rx_opt a = Alt a Eps"

definition rx_lazy_plus :: "rx \<Rightarrow> rx" where
  "rx_lazy_plus a = Cat a (LazyStar a)"

fun rx_rep :: "nat \<Rightarrow> nat \<Rightarrow> rx \<Rightarrow> rx" where
  "rx_rep 0 0 a = Eps"
| "rx_rep 0 (Suc n) a = Alt (Cat a (rx_rep 0 n a)) Eps"
| "rx_rep (Suc m) n a = Cat a (rx_rep m (n - 1) a)"

fun rx_seq :: "rx list \<Rightarrow> rx" where
  "rx_seq [] = Eps"
| "rx_seq [a] = a"
| "rx_seq (a # as) = Cat a (rx_seq as)"

definition any_char :: "char \<Rightarrow> bool" where
  "any_char c = (c \<noteq> CHR 0x0A)"

section \<open>The parsed document\<close>

text \<open>
  \<^verbatim>\<open>BeautifulSoup(html, "lxml")\<close> turns the page into a tree of tags and strings; the
  parsers work on that tree, which is the input here. A tag has a name, its attributes
  in order, and its children. \<^verbatim>\<open>get_text(sep)\<close> joins the strings below a node.
\<close>

datatype node = Text string | Tag string "(string \<times> string) list" "node list"

fun strings :: "node \<Rightarrow> string list" where
  "strings (Text s) = [s]"
| "strings (Tag name attrs kids) = concat (map strings kids)"

definition get_text :: "string \<Rightarrow> node \<Rightarrow> string" where
  "get_text sep n = join sep (strings n)"

text \<open>A document: the root object with the top-level nodes below it.\<close>

definition document :: "node list \<Rightarrow> node" where
  "document kids = Tag ''[document]'' [] kids"

text \<open>What the selector library answers when it is handed a selector as text.\<close>

datatype css_outcome = SelectorSyntaxError | NoMatch | Match node

section \<open>Library functions taken as parameters\<close>

text \<open>
  The parsing of floats, dates and URLs is done by the standard library and by
  \<^verbatim>\<open>dateutil\<close>. The functions of the repository that call them take them from a
  record: \<open>py_float\<close> is \<^verbatim>\<open>float(text)\<close> (\<open>None\<close> for \<^verbatim>\<open>ValueError\<close>), \<open>float_str\<close>
  is \<^verbatim>\<open>str\<close> of a float, \<open>fromtimestamp\<close> and \<open>fromisoformat\<close> are the constructors
  of \<^verbatim>\<open>datetime\<close> and \<open>dateparser_parse\<close> is
  \<^verbatim>\<open>dateutil.parser.parse(text, dayfirst=True, fuzzy=True)\<close> (\<open>None\<close> when they raise),
  \<open>urljoin\<close> is \<^verbatim>\<open>urllib.parse.urljoin\<close>. \<open>select_one_raw\<close> is \<^verbatim>\<open>select_one\<close> of the
  selector library for a selector text that the model does not read itself, on an
  element given with its ancestors.
\<close>

record pylib =
  py_float :: "string \<Rightarrow> real option"
  float_str :: "real \<Rightarrow> string"
  fromtimestamp :: "real \<Rightarrow> datetime option"
  fromisoformat :: "string \<Rightarrow> datetime option"
  dateparser_parse :: "string \<Rightarrow> datetime option"
  urljoin :: "string \<Rightarrow> string \<Rightarrow> string"
  select_one_raw :: "string \<Rightarrow> node \<Rightarrow> node list \<Rightarrow> css_outcome"

text \<open>\<^verbatim>\<open>s.replace(old, new)\<close> for a non-empty \<^verbatim>\<open>old\<close>.\<close>

function str_replace :: "string \<Rightarrow> string \<Rightarrow> string \<Rightarrow> string" where
  "str_replace old new s =
     (case s of
        [] \<Rightarrow> []
      | c # cs \<Rightarrow>
          if old \<noteq> [] \<and> prefix old s then new @ str_replace old new (drop (length old) s)
          else c # str_replace old new cs)"
  by pat_completeness auto
termination
  by (relation "measure (\<lambda>(old, new, s). length s)") auto

text \<open>\<^verbatim>\<open>safe_float\<close> of logging\_utils.py.\<close>

definition safe_float :: "pylib \<Rightarrow> string option \<Rightarrow> real option" where
  "safe_float L text =
     (case text of
        None \<Rightarrow> None
      | Some t \<Rightarrow>
          if t = [] then None
          else py_float L (strip (str_replace '','' ''.'' (str_replace ''.'' '''' (str_replace '' '' ''''
                  (str_replace ''R$'' '''' t))))))"

section \<open>api\_json.py: lots from JSON payloads\<close>




text \<open>\<^verbatim>\<open>str(x)\<close>: decimal digits for an \<^verbatim>\<open>int\<close>, \<^verbatim>\<open>repr\<close> inside lists and dicts.\<close>

definition digit_char :: "nat \<Rightarrow> char" where
  "digit_char d = char_of (48 + d)"

function str_nat :: "nat \<Rightarrow> string" where
  "str_nat n = (if n < 10 then [digit_char n] else str_nat (n div 10) @ [digit_char (n mod 10)])"
  by pat_completeness auto
termination
  by (relation "measure id") auto

definition str_int :: "int \<Rightarrow> string" where
  "str_int i = (if i < 0 then ''-'' @ str_nat (nat (- i)) else str_nat (nat i))"




















text \<open>The conversion of one item. \<^verbatim>\<open>(19\d{2}|20\d{2})\<close> finds the year.\<close>

definition year_rx :: rx where
  "year_rx = Grp 1 (Alt (Cat (rx_lit ''19'') (rx_rep 2 2 (Chr is_digit)))
                        (Cat (rx_lit ''20'') (rx_rep 2 2 (Chr is_digit))))"

definition int_of_digits :: "string \<Rightarrow> int" where
  "int_of_digits s = foldl (\<lambda>a c. 10 * a + (int (code_point c) - 48)) 0 s"









text \<open>
  A library for running the extractors on concrete inputs: it parses nothing. The
  inputs it is used with are such that no answer of the library enters the results
  stated about them.
\<close>

definition no_lib :: pylib where
  "no_lib = \<lparr>py_float = (\<lambda>t. None), float_str = (\<lambda>r. []), fromtimestamp = (\<lambda>r. None),
     fromisoformat = (\<lambda>t. None), dateparser_parse = (\<lambda>t. None), urljoin = (\<lambda>base u. u),
     select_one_raw = (\<lambda>sel n ancs. NoMatch)\<rparr>"


section \<open>crawler.py: pagination of a JSON endpoint\<close>

text \<open>
  \<^verbatim>\<open>_try_crawl_lots_via_json_api\<close>. What the method changes is kept in one record: the
  checkpoint and the file \<^verbatim>\<open>save\<close> writes, the lines appended to the per-auction log,
  the local list \<^verbatim>\<open>lots_all\<close>, and the pages for which a request was sent (each one
  after a \<^verbatim>\<open>rate_limiter.wait()\<close>). The network and the robots policy are the
  environment: for a page number they say whether \<^verbatim>\<open>_respect\<close> allows the URL that
  \<^verbatim>\<open>paginate_url\<close> or \<^verbatim>\<open>paginate_payload\<close> builds for it, and how the request for it
  is answered: it raises, or it gives a status, the flag \<^verbatim>\<open>resp.ok\<close> and the decoded
  body (\<open>None\<close> when \<^verbatim>\<open>resp.json()\<close> raises).
\<close>

record log_entry =
  entry_page :: int
  entry_lot :: Lot
  entry_source :: "string option"

record crawl_state =
  checkpoint :: CrawlCheckpoint
  checkpoint_on_disk :: checkpoint_file
  jsonl :: "log_entry list"
  lots_all :: "Lot list"
  requested :: "int list"







definition page_done_and_saved :: "string \<Rightarrow> int \<Rightarrow> crawl_state \<Rightarrow> crawl_state" where
  "page_done_and_saved aid page st =
     (let cp = mark_page_done aid page (checkpoint st)
      in st\<lparr>checkpoint := cp, checkpoint_on_disk := save cp\<rparr>)"



text \<open>\<^verbatim>\<open>{l.lot_id: l for l in lots}\<close> and \<^verbatim>\<open>list(uniq.values())\<close>: a later lot replaces an earlier one with the same id, at the place of the earlier one.\<close>

definition uniq_by_lot_id :: "Lot list \<Rightarrow> Lot list" where
  "uniq_by_lot_id lots = map snd (foldl (\<lambda>al l. AList.update (lot_id l) l al) [] lots)"













definition fresh_crawl :: crawl_state where
  "fresh_crawl = \<lparr>checkpoint = new_checkpoint, checkpoint_on_disk = None, jsonl = [], lots_all = [], requested = []\<rparr>"



section \<open>parsers.py: text helpers\<close>

text \<open>\<^verbatim>\<open>norm_text(s) = _WS.sub(" ", (s or "").strip())\<close> with \<^verbatim>\<open>_WS = \s+\<close>.\<close>

definition norm_text :: "string \<Rightarrow> string" where
  "norm_text s = re_sub (rx_plus (Chr is_space)) '' '' (strip s)"

definition ws :: rx where
  "ws = Chr is_space"

definition digit09 :: rx where
  "digit09 = Chr (in_range CHR ''0'' CHR ''9'')"

definition ascii_letter :: "char \<Rightarrow> bool" where
  "ascii_letter c = (in_range CHR ''a'' CHR ''z'' c \<or> in_range CHR ''A'' CHR ''Z'' c)"

text \<open>\<^verbatim>\<open>parse_year\<close>: \<^verbatim>\<open>\b(19\d{2}|20\d{2})\b\<close>.\<close>

definition parse_year :: "string \<Rightarrow> int option" where
  "parse_year text =
     (if text = [] then None
      else (case re_search (rx_seq [Bnd, year_rx, Bnd]) text of
              None \<Rightarrow> None
            | Some m \<Rightarrow> map_option int_of_digits (group m 1)))"

definition parse_datetime_loose :: "pylib \<Rightarrow> string \<Rightarrow> datetime option" where
  "parse_datetime_loose L text = (if text = [] then None else dateparser_parse L text)"

text \<open>
  \<^verbatim>\<open>_extract_kv(text, keys)\<close>; a key is itself a pattern. The pattern is
  \<^verbatim>\<open>\b{k}\b\s*[:\-]?\s*(.+?)($|\s{2,}|\b[A-Z][a-z]+\b\s*[:\-])\<close>, ignoring case.
\<close>

definition kv_rx :: "rx \<Rightarrow> rx" where
  "kv_rx k = rx_seq [Bnd, k, Bnd, Star ws, rx_opt (Chr (one_of '':-'')), Star ws,
     Grp 1 (rx_lazy_plus (Chr any_char)),
     Grp 2 (Alt Eos (Alt (Cat ws (Cat ws (Star ws)))
        (rx_seq [Bnd, Chr ascii_letter, rx_plus (Chr ascii_letter), Bnd, Star ws, Chr (one_of '':-'')])))]"

fun extract_kv_loop :: "string \<Rightarrow> rx list \<Rightarrow> string option" where
  "extract_kv_loop t [] = None"
| "extract_kv_loop t (k # ks) =
     (case re_search (kv_rx k) t of
        Some m \<Rightarrow> map_option norm_text (group m 1)
      | None \<Rightarrow> extract_kv_loop t ks)"

definition extract_kv :: "string \<Rightarrow> rx list \<Rightarrow> string option" where
  "extract_kv text keys = extract_kv_loop (norm_text text) keys"

text \<open>The keys: \<^verbatim>\<open>cidade\<close>, \<^verbatim>\<open>munic[i\xed]pio\<close>, \<^verbatim>\<open>local\<close>; \<^verbatim>\<open>p[a\xe1]tio\<close>, \<^verbatim>\<open>patio\<close>; \<^verbatim>\<open>organizador\<close>, \<^verbatim>\<open>leiloeiro\<close> (accented letters written by code point).\<close>

definition city_keys :: "rx list" where
  "city_keys = [rx_lit_ci ''cidade'',
     rx_seq [rx_lit_ci ''munic'', Chr (one_of_ci [CHR ''i'', CHR 0xED]), rx_lit_ci ''pio''],
     rx_lit_ci ''local'']"

definition yard_keys :: "rx list" where
  "yard_keys = [rx_seq [rx_lit_ci ''p'', Chr (one_of_ci [CHR ''a'', CHR 0xE1]), rx_lit_ci ''tio''],
     rx_lit_ci ''patio'']"

definition organizer_keys :: "rx list" where
  "organizer_keys = [rx_lit_ci ''organizador'', rx_lit_ci ''leiloeiro'']"

text \<open>
  \<^verbatim>\<open>_guess_auction_number\<close>:
  \<^verbatim>\<open>\b(leil[a\xe3]o)\s*(n[\xbao]\.?|n\b|n\s*o)?\s*[:\-]?\s*([0-9]{1,10}(?:\/[0-9]{2,4})?)\b\<close>,
  ignoring case.
\<close>

definition auction_number_rx :: rx where
  "auction_number_rx = rx_seq [Bnd,
     Grp 1 (rx_seq [rx_lit_ci ''leil'', Chr (one_of_ci [CHR ''a'', CHR 0xE3]), rx_lit_ci ''o'']),
     Star ws,
     rx_opt (Grp 2 (Alt (rx_seq [rx_lit_ci ''n'', Chr (one_of_ci [CHR 0xBA, CHR ''o'']), rx_opt (rx_lit ''.'')])
                   (Alt (Cat (rx_lit_ci ''n'') Bnd)
                        (rx_seq [rx_lit_ci ''n'', Star ws, rx_lit_ci ''o''])))),
     Star ws, rx_opt (Chr (one_of '':-'')), Star ws,
     Grp 3 (Cat (rx_rep 1 10 digit09) (rx_opt (Cat (rx_lit ''/'') (rx_rep 2 4 digit09)))),
     Bnd]"

definition guess_auction_number :: "string \<Rightarrow> string option" where
  "guess_auction_number text =
     (case re_search auction_number_rx (norm_text text) of
        Some m \<Rightarrow> group m 3
      | None \<Rightarrow> None)"

definition guess_status :: "string \<Rightarrow> string option" where
  "guess_status text =
     find (\<lambda>k. sublist k (lower (norm_text text)))
       [''publicado'', ''aberto'', ''encerrado'', ''finalizado'', ''em andamento'']"

section \<open>parsers.py: auction details\<close>

text \<open>
  \<^verbatim>\<open>x or y\<close> on an optional string: \<^verbatim>\<open>x\<close> when it is neither \<^verbatim>\<open>None\<close> nor empty,
  otherwise \<^verbatim>\<open>y\<close>.
\<close>

definition or_else :: "string option \<Rightarrow> string option \<Rightarrow> string option" where
  "or_else x y = (case x of Some s \<Rightarrow> if s \<noteq> [] then Some s else y | None \<Rightarrow> y)"

text \<open>
  The closing time: the labels are tried in order with
  \<^verbatim>\<open>\b{label}\b\s*[:\-]?\s*(.+?)($|\s{2,})\<close>; the first label whose match parses
  as a date gives the value.
\<close>

definition ends_at_rx :: "rx \<Rightarrow> rx" where
  "ends_at_rx label = rx_seq [Bnd, label, Bnd, Star ws, rx_opt (Chr (one_of '':-'')), Star ws,
     Grp 1 (rx_lazy_plus (Chr any_char)),
     Grp 2 (Alt Eos (Cat ws (Cat ws (Star ws))))]"

definition ends_at_labels :: "rx list" where
  "ends_at_labels = [rx_lit_ci ''encerramento'', rx_lit_ci ''encerra'', rx_lit_ci ''data/hora'',
     rx_lit_ci ''data e hora'',
     rx_seq [rx_lit_ci ''t'', Chr (one_of_ci [CHR 0xE9, CHR ''e'']), rx_lit_ci ''rmino''],
     rx_lit_ci ''termino'']"

fun find_ends_at :: "pylib \<Rightarrow> string \<Rightarrow> rx list \<Rightarrow> datetime option" where
  "find_ends_at L text [] = None"
| "find_ends_at L text (label # labels) =
     (case re_search (ends_at_rx label) text of
        Some m \<Rightarrow>
          (case parse_datetime_loose L (case group m 1 of Some g \<Rightarrow> g | None \<Rightarrow> []) of
             Some d \<Rightarrow> Some d
           | None \<Rightarrow> find_ends_at L text labels)
      | None \<Rightarrow> find_ends_at L text labels)"

definition parse_auction_details_from_html :: "pylib \<Rightarrow> node \<Rightarrow> Auction \<Rightarrow> Auction" where
  "parse_auction_details_from_html L soup auction =
     (let text = norm_text (get_text '' '' soup);
          number_v = or_else (number auction) (guess_auction_number text);
          city_v = or_else (city auction) (extract_kv text city_keys);
          yard_v = or_else (yard auction) (extract_kv text yard_keys);
          organizer_v = or_else (organizer auction) (extract_kv text organizer_keys);
          status_v = or_else (status auction) (guess_status text);
          ends_at_v = (case Auction.ends_at auction of
                         None \<Rightarrow> find_ends_at L text ends_at_labels
                       | Some d \<Rightarrow> Some d)
      in \<lparr>Auction.auction_id = Auction.auction_id auction, url = url auction, number = number_v,
          city = city_v, yard = yard_v, organizer = organizer_v, status = status_v,
          ends_at = ends_at_v\<rparr>)"

text \<open>An auction as discovery leaves it, a details page, and the same auction with an empty status.\<close>

definition discovered :: Auction where
  "discovered = \<lparr>Auction.auction_id = ''leilao-2842'', url = ''https://leilao.example/leilao/2842'',
     number = Some ''2842/2026'', city = Some ''Belo Horizonte'', yard = Some ''Patio Norte'',
     organizer = Some ''DETRAN'', status = Some ''publicado'',
     ends_at = Some (Datetime 2026 3 1 10 0 0)\<rparr>"

definition details_page :: node where
  "details_page = document [Tag ''html'' [] [Tag ''body'' []
     [Tag ''h1'' [] [Text ''Leilao 77 aberto''], Tag ''p'' [] [Text ''Cidade: Contagem'']]]]"

definition undiscovered :: Auction where
  "undiscovered = \<lparr>Auction.auction_id = ''leilao-2842'', url = ''https://leilao.example/leilao/2842'',
     number = None, city = None, yard = None, organizer = None, status = Some '''', ends_at = None\<rparr>"

section \<open>CSS selectors\<close>

text \<open>
  The selectors the parser uses are lists of alternatives; an alternative is a chain of
  compound selectors joined by the descendant combinator; a compound selector asks for
  a tag name, classes, an id and the presence of attributes. \<^verbatim>\<open>tag.select(sel)\<close>
  gives the tags below \<^verbatim>\<open>tag\<close> that match, in document order. The ancestors that the
  chain asks for are looked for among all ancestors of a candidate, so an element is
  handled together with its ancestors, the nearest first.
\<close>

record simple_sel =
  sel_tag :: "string option"
  sel_classes :: "string list"
  sel_id :: "string option"
  sel_attrs :: "string list"

type_synonym elem = "node \<times> node list"

definition by_tag :: "string \<Rightarrow> simple_sel" where
  "by_tag t = \<lparr>sel_tag = Some t, sel_classes = [], sel_id = None, sel_attrs = []\<rparr>"

definition by_class :: "string \<Rightarrow> string list \<Rightarrow> simple_sel" where
  "by_class t cs = \<lparr>sel_tag = Some t, sel_classes = cs, sel_id = None, sel_attrs = []\<rparr>"

definition by_id :: "string \<Rightarrow> simple_sel" where
  "by_id i = \<lparr>sel_tag = None, sel_classes = [], sel_id = Some i, sel_attrs = []\<rparr>"

definition by_attr :: "string \<Rightarrow> string \<Rightarrow> simple_sel" where
  "by_attr t a = \<lparr>sel_tag = Some t, sel_classes = [], sel_id = None, sel_attrs = [a]\<rparr>"

text \<open>\<^verbatim>\<open>tag.get(name)\<close>, and the tokens of a \<^verbatim>\<open>class\<close> attribute.\<close>

fun attr :: "node \<Rightarrow> string \<Rightarrow> string option" where
  "attr (Text s) name = None"
| "attr (Tag t attrs kids) name = map_of attrs name"

fun tokens_from :: "string \<Rightarrow> string \<Rightarrow> string list" where
  "tokens_from cur [] = (if cur = [] then [] else [rev cur])"
| "tokens_from cur (c # cs) =
     (if is_space c then (if cur = [] then tokens_from [] cs else rev cur # tokens_from [] cs)
      else tokens_from (c # cur) cs)"

definition tokens :: "string \<Rightarrow> string list" where
  "tokens s = tokens_from [] s"

fun matches_simple :: "simple_sel \<Rightarrow> node \<Rightarrow> bool" where
  "matches_simple s (Text t) = False"
| "matches_simple s (Tag name attrs kids) =
     ((case sel_tag s of None \<Rightarrow> True | Some t \<Rightarrow> name = t)
      \<and> list_all (\<lambda>c. c \<in> set (tokens (case map_of attrs ''class'' of None \<Rightarrow> [] | Some v \<Rightarrow> v)))
           (sel_classes s)
      \<and> (case sel_id s of None \<Rightarrow> True | Some i \<Rightarrow> map_of attrs ''id'' = Some i)
      \<and> list_all (\<lambda>a. map_of attrs a \<noteq> None) (sel_attrs s))"

fun ancestors_match :: "simple_sel list \<Rightarrow> node list \<Rightarrow> bool" where
  "ancestors_match [] ancs = True"
| "ancestors_match (s # rest) [] = False"
| "ancestors_match (s # rest) (a # ancs) =
     (if matches_simple s a then ancestors_match rest ancs else ancestors_match (s # rest) ancs)"

definition matches_chain :: "simple_sel list \<Rightarrow> elem \<Rightarrow> bool" where
  "matches_chain chain e =
     (case rev chain of
        [] \<Rightarrow> False
      | s # rest \<Rightarrow> matches_simple s (fst e) \<and> ancestors_match rest (snd e))"

fun below :: "node list \<Rightarrow> node \<Rightarrow> elem list" where
  "below ancs (Text s) = []"
| "below ancs (Tag name attrs kids) =
     concat (map (\<lambda>k. (case k of Tag _ _ _ \<Rightarrow> [(k, Tag name attrs kids # ancs)] | Text _ \<Rightarrow> [])
                       @ below (Tag name attrs kids # ancs) k) kids)"

definition select :: "simple_sel list list \<Rightarrow> elem \<Rightarrow> elem list" where
  "select sel e = filter (\<lambda>x. list_ex (\<lambda>chain. matches_chain chain x) sel) (below (snd e) (fst e))"

definition select_one :: "simple_sel list list \<Rightarrow> elem \<Rightarrow> elem option" where
  "select_one sel e = (case select sel e of [] \<Rightarrow> None | x # _ \<Rightarrow> Some x)"

text \<open>The selectors of \<^verbatim>\<open>parse_lot_cards_from_html\<close>.\<close>

definition sel_div_article :: "simple_sel list list" where
  "sel_div_article = [[by_tag ''div''], [by_tag ''article'']]"

definition sel_site_cards :: "simple_sel list list" where
  "sel_site_cards = [[by_class ''div'' [''card'', ''listaLotes'']]]"

definition sel_header_b :: "simple_sel list list" where
  "sel_header_b = [[by_class ''div'' [''card-body''], by_tag ''b'']]"

definition sel_header_spans :: "simple_sel list list" where
  "sel_header_spans = [[by_class ''div'' [''card-body''], by_tag ''b'', by_tag ''span'']]"

definition sel_brand_model :: "simple_sel list list" where
  "sel_brand_model = [[by_class ''div'' [''row''], by_class ''div'' [''col-12'', ''text-center''], by_tag ''b'']]"

definition sel_img :: "simple_sel list list" where
  "sel_img = [[by_tag ''img'']]"

definition sel_span_onclick :: "simple_sel list list" where
  "sel_span_onclick = [[by_attr ''span'' ''onclick'']]"

definition sel_a :: "simple_sel list list" where
  "sel_a = [[by_tag ''a'']]"

text \<open>
  \<^verbatim>\<open>card.select_one(f"#valor_atual_lote_{lot_id}")\<close>. When the id of the card is made
  of letters, digits, \<^verbatim>\<open>-\<close> and \<^verbatim>\<open>_\<close> the text is an id selector; any other text is
  left to the library.
\<close>

definition css_ident :: "string \<Rightarrow> bool" where
  "css_ident s = list_all (\<lambda>c. ascii_letter c \<or> is_digit c \<or> c = CHR ''-'' \<or> c = CHR ''_'') s"

definition select_bid :: "pylib \<Rightarrow> string \<Rightarrow> elem \<Rightarrow> css_outcome" where
  "select_bid L lid el =
     (if css_ident lid then
        (case select_one [[by_id (''valor_atual_lote_'' @ lid)]] el of
           None \<Rightarrow> NoMatch
         | Some e \<Rightarrow> Match (fst e))
      else select_one_raw L (''#valor_atual_lote_'' @ lid) (fst el) (snd el))"

section \<open>parsers.py: lot cards\<close>

text \<open>
  The patterns of \<^verbatim>\<open>parse_lot_cards_from_html\<close>:
  \<^verbatim>\<open>\bLote\s*([0-9]+[a-zA-Z0-9\-\.]*)\b\<close> and, in the generic scan,
  \<^verbatim>\<open>\bLote\s*[:#-]?\s*([0-9]+[a-zA-Z0-9\-\.]*)\b\<close>, both ignoring case;
  \<^verbatim>\<open>\blote\b\<close>; \<^verbatim>\<open>R\$\s*[0-9\.,]+\<close>; \<^verbatim>\<open>/lotes/detalhes/\d+\<close>; \<^verbatim>\<open>\W+\<close>;
  \<^verbatim>\<open>\s*\b{year}\b\s*$\<close>; \<^verbatim>\<open>\b(encerramento|encerra)\b\s*[:\-]?\s*(.+)$\<close>;
  \<^verbatim>\<open>encerr\<close>.
\<close>

definition lot_number_chars :: rx where
  "lot_number_chars =
     Cat (rx_plus digit09)
         (Star (Chr (\<lambda>c. ascii_letter c \<or> in_range CHR ''0'' CHR ''9'' c \<or> c = CHR ''-'' \<or> c = CHR ''.'')))"

definition lote_num_rx :: rx where
  "lote_num_rx = rx_seq [Bnd, rx_lit_ci ''Lote'', Star ws, Grp 1 lot_number_chars, Bnd]"

definition lote_num_loose_rx :: rx where
  "lote_num_loose_rx =
     rx_seq [Bnd, rx_lit_ci ''Lote'', Star ws, rx_opt (Chr (one_of '':#-'')), Star ws,
             Grp 1 lot_number_chars, Bnd]"

definition lote_word_rx :: rx where
  "lote_word_rx = rx_seq [Bnd, rx_lit_ci ''lote'', Bnd]"

definition price_rx :: rx where
  "price_rx = rx_seq [rx_lit ''R$'', Star ws,
     rx_plus (Chr (\<lambda>c. in_range CHR ''0'' CHR ''9'' c \<or> c = CHR ''.'' \<or> c = CHR '',''))]"

definition details_rx :: rx where
  "details_rx = Cat (rx_lit ''/lotes/detalhes/'') (rx_plus (Chr is_digit))"

definition nonword_rx :: rx where
  "nonword_rx = rx_plus (Chr (\<lambda>c. \<not> is_word c))"

definition trailing_year_rx :: "int \<Rightarrow> rx" where
  "trailing_year_rx y = rx_seq [Star ws, Bnd, rx_lit (str_int y), Bnd, Star ws, Eos]"

definition closing_rx :: rx where
  "closing_rx = rx_seq [Bnd, Grp 1 (Alt (rx_lit_ci ''encerramento'') (rx_lit_ci ''encerra'')), Bnd,
     Star ws, rx_opt (Chr (one_of '':-'')), Star ws, Grp 2 (rx_plus (Chr any_char)), Eos]"

definition found :: "rx \<Rightarrow> string \<Rightarrow> bool" where
  "found re s = (re_search re s \<noteq> None)"

text \<open>\<^verbatim>\<open>s.strip("-")\<close> and \<^verbatim>\<open>s.split("\n")\<close>.\<close>

definition strip_dashes :: "string \<Rightarrow> string" where
  "strip_dashes s = rev (dropWhile (\<lambda>c. c = CHR ''-'') (rev (dropWhile (\<lambda>c. c = CHR ''-'') s)))"

fun split_lines_from :: "string \<Rightarrow> string \<Rightarrow> string list" where
  "split_lines_from cur [] = [rev cur]"
| "split_lines_from cur (c # cs) =
     (if c = CHR 0x0A then rev cur # split_lines_from [] cs else split_lines_from (c # cur) cs)"

definition split_lines :: "string \<Rightarrow> string list" where
  "split_lines s = split_lines_from [] s"

text \<open>
  The lot id made from text when nothing better is found:
  \<^verbatim>\<open>re.sub(r"\W+", "-", text[:60]).strip("-").lower() or "unknown"\<close>.
\<close>

definition slug :: "string \<Rightarrow> string" where
  "slug text =
     (let s = lower (strip_dashes (re_sub nonword_rx ''-'' (take 60 text)))
      in if s \<noteq> [] then s else ''unknown'')"

definition text_of :: "elem \<Rightarrow> string" where
  "text_of el = norm_text (get_text '' '' (fst el))"

definition attr_or_empty :: "elem \<Rightarrow> string \<Rightarrow> string" where
  "attr_or_empty el name = (case attr (fst el) name of None \<Rightarrow> [] | Some v \<Rightarrow> v)"

subsection \<open>The known structure of the site: \<^verbatim>\<open>div.card.listaLotes\<close>\<close>

text \<open>The id of the container, the header, and the text the lot number is read from (\<^verbatim>\<open>header_text or card_text\<close>).\<close>

definition card_id :: "elem \<Rightarrow> string" where
  "card_id el = strip (attr_or_empty el ''id'')"

definition header_text :: "elem \<Rightarrow> string option" where
  "header_text el = map_option text_of (select_one sel_header_b el)"

definition card_label :: "elem \<Rightarrow> string" where
  "card_label el =
     (case header_text el of
        Some h \<Rightarrow> if h \<noteq> [] then h else text_of el
      | None \<Rightarrow> text_of el)"

definition lote_num :: "elem \<Rightarrow> string option" where
  "lote_num el = (case re_search lote_num_rx (card_label el) of None \<Rightarrow> None | Some m \<Rightarrow> group m 1)"

definition situation_words :: "string list" where
  "situation_words = [''sem reserva'', ''com reserva'', ''sucata'',
     ''recuper'' @ [CHR 0xE1] @ ''vel'', ''recuperavel'', ''circula'',
     ''n'' @ [CHR 0xE3] @ ''o circula'', ''nao circula'']"

definition card_situation :: "elem \<Rightarrow> string option" where
  "card_situation el =
     (let spans = select sel_header_spans el;
          from_header =
            (if length spans \<ge> 2 then (let s = text_of (spans ! 1) in if s \<noteq> [] then Some s else None)
             else None)
      in case from_header of
           Some s \<Rightarrow> Some s
         | None \<Rightarrow> find (\<lambda>k. sublist k (lower (text_of el))) situation_words)"

definition brand_model_full :: "elem \<Rightarrow> string option" where
  "brand_model_full el =
     find (\<lambda>t. t \<noteq> [] \<and> \<not> found lote_word_rx t) (map text_of (select sel_brand_model el))"

definition card_year :: "elem \<Rightarrow> int option" where
  "card_year el =
     (case parse_year (case brand_model_full el of None \<Rightarrow> [] | Some t \<Rightarrow> t) of
        Some y \<Rightarrow> Some y
      | None \<Rightarrow> parse_year (text_of el))"

definition card_brand_model :: "elem \<Rightarrow> string option" where
  "card_brand_model el =
     (case brand_model_full el of
        None \<Rightarrow> None
      | Some full \<Rightarrow>
          (case card_year el of
             Some y \<Rightarrow> (let r = strip (re_sub (trailing_year_rx y) [] full) in Some (if r \<noteq> [] then r else full))
           | None \<Rightarrow> Some full))"

definition price_in_text :: "pylib \<Rightarrow> string \<Rightarrow> real option" where
  "price_in_text L text =
     (case re_search price_rx text of None \<Rightarrow> None | Some m \<Rightarrow> safe_float L (group m 0))"

datatype parse_error = SelectorError

definition card_start_bid :: "pylib \<Rightarrow> elem \<Rightarrow> parse_error + real option" where
  "card_start_bid L el =
     (if card_id el \<noteq> [] then
        (case select_bid L (card_id el) el of
           SelectorSyntaxError \<Rightarrow> Inl SelectorError
         | NoMatch \<Rightarrow> Inr (price_in_text L (text_of el))
         | Match bid_el \<Rightarrow>
             (case safe_float L (Some (norm_text (get_text '' '' bid_el))) of
                Some b \<Rightarrow> Inr (Some b)
              | None \<Rightarrow> Inr (price_in_text L (text_of el))))
      else Inr (price_in_text L (text_of el)))"

definition card_images :: "pylib \<Rightarrow> string \<Rightarrow> elem \<Rightarrow> string list" where
  "card_images L base el =
     map (urljoin L base)
       (filter (\<lambda>src. src \<noteq> []) (map (\<lambda>img. strip (attr_or_empty img ''src'')) (select sel_img el)))"

definition card_lot_url :: "pylib \<Rightarrow> string \<Rightarrow> elem \<Rightarrow> string option" where
  "card_lot_url L base el =
     (case select_one sel_span_onclick el of
        None \<Rightarrow> None
      | Some clickable \<Rightarrow>
          (case re_search details_rx (attr_or_empty clickable ''onclick'') of
             None \<Rightarrow> None
           | Some m \<Rightarrow> map_option (urljoin L base) (group m 0)))"

definition card_requires_login :: "elem \<Rightarrow> bool" where
  "card_requires_login el =
     list_ex (\<lambda>a. sublist ''login obrigat'' (lower (text_of a))
                  \<or> sublist ''/ssc/login/login'' (lower (attr_or_empty a ''href'')))
       (select sel_a el)"

text \<open>
  The lot id: the id of the container; without one, the number after "Lote"; without
  that, the slug of the label.
\<close>

definition card_lot_id :: "elem \<Rightarrow> string" where
  "card_lot_id el =
     (if card_id el \<noteq> [] then card_id el
      else (case lote_num el of
              Some n \<Rightarrow> if n \<noteq> [] then n else slug (card_label el)
            | None \<Rightarrow> slug (card_label el)))"

definition card_description :: "elem \<Rightarrow> string" where
  "card_description el =
     (case header_text el of
        Some h \<Rightarrow> if h \<noteq> [] then h else (case lote_num el of Some n \<Rightarrow> ''Lote '' @ n | None \<Rightarrow> text_of el)
      | None \<Rightarrow> (case lote_num el of Some n \<Rightarrow> ''Lote '' @ n | None \<Rightarrow> text_of el))"

definition site_card_lot :: "pylib \<Rightarrow> string \<Rightarrow> string \<Rightarrow> elem \<Rightarrow> parse_error + Lot" where
  "site_card_lot L aid base el =
     (case card_start_bid L el of
        Inl e \<Rightarrow> Inl e
      | Inr bid \<Rightarrow>
          Inr \<lparr>auction_id = aid, lot_id = card_lot_id el, description_short = take 180 (card_description el),
               brand_model = card_brand_model el, year = card_year el, situation = card_situation el,
               start_bid = bid, ends_at = None, lot_url = card_lot_url L base el,
               image_urls = card_images L base el, requires_login = card_requires_login el,
               raw_text = Some (text_of el)\<rparr>)"

fun all_or_error :: "('e + 'a) list \<Rightarrow> 'e + 'a list" where
  "all_or_error [] = Inr []"
| "all_or_error (x # xs) =
     (case x of
        Inl e \<Rightarrow> Inl e
      | Inr v \<Rightarrow> (case all_or_error xs of Inl e \<Rightarrow> Inl e | Inr vs \<Rightarrow> Inr (v # vs)))"

subsection \<open>The generic scan of \<^verbatim>\<open>div\<close> and \<^verbatim>\<open>article\<close>\<close>

definition mentions_lote :: "elem \<Rightarrow> bool" where
  "mentions_lote el = (text_of el \<noteq> [] \<and> sublist ''lote'' (lower (text_of el)))"

definition generic_situations :: "(string \<times> rx) list" where
  "generic_situations =
     [(''sem reserva'', rx_lit_ci ''sem reserva''),
      (''com reserva'', rx_lit_ci ''com reserva''),
      (''sucata'', rx_lit_ci ''sucata''),
      (''recuper['' @ [CHR 0xE1] @ ''a]vel'',
         rx_seq [rx_lit_ci ''recuper'', Chr (one_of_ci [CHR 0xE1, CHR ''a'']), rx_lit_ci ''vel'']),
      (''circula'', rx_lit_ci ''circula''),
      (''n[a'' @ [CHR 0xE3] @ '']o circula'',
         rx_seq [rx_lit_ci ''n'', Chr (one_of_ci [CHR ''a'', CHR 0xE3]), rx_lit_ci ''o circula''])]"

definition generic_lot_id :: "string \<Rightarrow> string" where
  "generic_lot_id text =
     (case re_search lote_num_loose_rx text of
        None \<Rightarrow> slug text
      | Some m \<Rightarrow> (case group m 1 of Some n \<Rightarrow> if n \<noteq> [] then n else slug text | None \<Rightarrow> slug text))"

definition generic_brand_model :: "elem \<Rightarrow> string option" where
  "generic_brand_model el =
     (let lines = filter (\<lambda>x. x \<noteq> []) (map norm_text (split_lines (get_text [CHR 0x0A] (fst el))))
      in find (\<lambda>ln. \<not> found lote_word_rx ln \<and> \<not> found price_rx ln \<and> \<not> found (rx_lit_ci ''encerr'') ln
                    \<and> length ln \<ge> 3) (take 6 lines))"

definition generic_link :: "pylib \<Rightarrow> string \<Rightarrow> elem \<Rightarrow> string option" where
  "generic_link L base el =
     map_option (\<lambda>a. urljoin L base (attr_or_empty a ''href''))
       (find (\<lambda>a. attr_or_empty a ''href'' \<noteq> []
                  \<and> (sublist ''lote'' (lower (attr_or_empty a ''href''))
                      \<or> sublist ''detal'' (lower (get_text '' '' (fst a)))))
          (select sel_a el))"

definition generic_card_lot :: "pylib \<Rightarrow> string \<Rightarrow> string \<Rightarrow> elem \<Rightarrow> Lot" where
  "generic_card_lot L aid base el =
     (let text = text_of el
      in \<lparr>auction_id = aid, lot_id = generic_lot_id text, description_short = take 180 text,
          brand_model = generic_brand_model el, year = parse_year text,
          situation = map_option fst (find (\<lambda>(k, re). found re (lower text)) generic_situations),
          start_bid = price_in_text L text,
          ends_at = (case re_search closing_rx text of
                       None \<Rightarrow> None
                     | Some m \<Rightarrow> parse_datetime_loose L (case group m 2 of Some g \<Rightarrow> g | None \<Rightarrow> [])),
          lot_url = generic_link L base el,
          image_urls = map (urljoin L base)
                         (filter (\<lambda>src. src \<noteq> []) (map (\<lambda>img. attr_or_empty img ''src'') (select sel_img el))),
          requires_login = (sublist ''login'' (lower text) \<and> sublist ''obrig'' (lower text)),
          raw_text = Some text\<rparr>)"

subsection \<open>\<^verbatim>\<open>parse_lot_cards_from_html\<close>\<close>

text \<open>
  The function loops over the \<^verbatim>\<open>div\<close> and \<^verbatim>\<open>article\<close> elements and skips those
  whose text does not mention "lote". Both \<^verbatim>\<open>return\<close> statements are in the body of
  that loop: at the first element that is not skipped the page is parsed again and the
  result is returned. When every element is skipped, or there is none, the loop ends
  and the function returns nothing, which is \<^verbatim>\<open>None\<close>.
\<close>

definition parse_lot_cards_from_html ::
  "pylib \<Rightarrow> node \<Rightarrow> string \<Rightarrow> string \<Rightarrow> parse_error + Lot list option" where
  "parse_lot_cards_from_html L soup aid page_url =
     (if list_ex mentions_lote (select sel_div_article (soup, [])) then
        (let site_cards = select sel_site_cards (soup, [])
         in if site_cards \<noteq> [] then
              (case all_or_error (map (site_card_lot L aid page_url) site_cards) of
                 Inl e \<Rightarrow> Inl e
               | Inr lots \<Rightarrow> Inr (Some (uniq_by_lot_id lots)))
            else
              Inr (Some (uniq_by_lot_id
                (map (generic_card_lot L aid page_url)
                   (filter mentions_lote (select sel_div_article (soup, [])))))))
      else Inr None)"

text \<open>
  The caller in \<^verbatim>\<open>_crawl_auction_lots_playwright\<close>: when page 1 is not checkpointed,
  the page is parsed and \<^verbatim>\<open>for l in lots\<close> appends to the log. Iterating over
  \<^verbatim>\<open>None\<close> raises \<^verbatim>\<open>TypeError\<close>.
\<close>

datatype caller_error = TypeError | ParseRaised parse_error

definition html_entries :: "int \<Rightarrow> Lot list \<Rightarrow> log_entry list" where
  "html_entries page lots = map (\<lambda>l. \<lparr>entry_page = page, entry_lot = l, entry_source = None\<rparr>) lots"

definition process_first_page ::
  "string \<Rightarrow> parse_error + Lot list option \<Rightarrow> crawl_state \<Rightarrow> caller_error + crawl_state" where
  "process_first_page aid parsed st =
     (if \<not> is_page_done (checkpoint st) aid 1 then
        (case parsed of
           Inl e \<Rightarrow> Inl (ParseRaised e)
         | Inr None \<Rightarrow> Inl TypeError
         | Inr (Some lots) \<Rightarrow>
             Inr (page_done_and_saved aid 1
                    (st\<lparr>jsonl := jsonl st @ html_entries 1 lots, lots_all := lots_all st @ lots\<rparr>)))
      else Inr st)"






definition no_lots_page :: node where
  "no_lots_page =
     document [Tag ''html'' [] [Tag ''body'' [] [Tag ''div'' [] [Text ''Nenhum item encontrado'']]]]"

chapter \<open>Properties\<close>

section \<open>retry.py\<close>






section \<open>checkpoint.py\<close>

lemma mark_page_done_lookup:
  "is_page_done (mark_page_done a p cp) a' p' = ((a' = a \<and> p' = p) \<or> is_page_done cp a' p')"
  by (auto simp: is_page_done_def mark_page_done_def Let_def split: option.splits)

lemma mark_all_lookup:
  "is_page_done (mark_all ps cp) a p = ((a, p) \<in> set ps \<or> is_page_done cp a p)"
  unfolding mark_all_def
proof (induction ps arbitrary: cp)
  case Nil
  show ?case by simp
next
  case (Cons x xs)
  obtain a' p' where x: "x = (a', p')" by (cases x)
  show ?case using Cons.IH [of "mark_page_done a' p' cp"]
    by (auto simp: x mark_page_done_lookup)
qed

lemma new_checkpoint_nothing_done: "\<not> is_page_done new_checkpoint a p"
  by (simp add: is_page_done_def new_checkpoint_def)

text \<open>
  C4. For every checkpoint state, what \<^verbatim>\<open>save\<close> writes is read back by \<^verbatim>\<open>load\<close>
  (into any checkpoint object on the same path) as exactly the same \<^verbatim>\<open>pages_done\<close>;
  \<^verbatim>\<open>mark_page_done\<close> applied twice equals \<^verbatim>\<open>mark_page_done\<close> applied once; and after
  any sequence of marks on a fresh checkpoint \<^verbatim>\<open>is_page_done\<close> holds for exactly the
  pairs that were marked, so it is false for every pair never marked.
\<close>

theorem checkpoint_contract:
  "pages_done (load (save cp) cp') = pages_done cp
   \<and> mark_page_done a p (mark_page_done a p cp) = mark_page_done a p cp
   \<and> is_page_done (mark_all ps new_checkpoint) a p = ((a, p) \<in> set ps)"
proof (intro conjI)
  show "pages_done (load (save cp) cp') = pages_done cp"
    by (rule ext) (simp add: load_def save_def option.map_comp comp_def option.map_ident)
  show "mark_page_done a p (mark_page_done a p cp) = mark_page_done a p cp"
    by (simp add: mark_page_done_def Let_def)
  show "is_page_done (mark_all ps new_checkpoint) a p = ((a, p) \<in> set ps)"
    by (simp add: mark_all_lookup new_checkpoint_nothing_done)
qed

section \<open>robots.py\<close>

text \<open>
  C6. After a \<^verbatim>\<open>load\<close> in which anything raised, and likewise before \<^verbatim>\<open>load\<close> was
  ever called, \<^verbatim>\<open>can_fetch\<close> answers true for every url, whatever rules the parser
  holds and however the library would evaluate them: the policy cannot be told apart
  from one whose rules allow everything.
\<close>

theorem robots_fail_open:
  "can_fetch rp_can_fetch (robots_load (LoadRaised r) pol) u
   \<and> can_fetch rp_can_fetch (robots_init base agent fresh) u
   \<and> can_fetch rp_can_fetch (robots_load (LoadRaised r) pol) u
       = can_fetch (\<lambda>rules agent u. True) (robots_load (LoadParsed r') pol) u"
  by (simp add: can_fetch_def robots_load_def robots_init_def)

section \<open>rate\_limit.py\<close>



section \<open>filters.py\<close>

lemma norm_keywords_None [simp]: "norm_keywords None = []"
  by (simp add: norm_keywords_def)




lemma criteria_complete: "c \<in> set criteria"
  by (cases c) (simp_all add: criteria_def)



section \<open>api\_json.py\<close>





section \<open>crawler.py: pagination of a JSON endpoint\<close>








lemma checkpoint_page_done_and_saved [simp]:
  "checkpoint (page_done_and_saved aid p st) = mark_page_done aid p (checkpoint st)"
  "requested (page_done_and_saved aid p st) = requested st"
  by (simp_all add: page_done_and_saved_def Let_def)






section \<open>parsers.py: auction details\<close>

lemma or_else_present: "x \<noteq> None \<Longrightarrow> x \<noteq> Some [] \<Longrightarrow> or_else x y = x"
  by (cases x) (auto simp: or_else_def)

lemma or_else_absent: "x = None \<or> x = Some [] \<Longrightarrow> or_else x y = y"
  by (auto simp: or_else_def)

lemma parse_auction_details_fields:
  "Auction.auction_id (parse_auction_details_from_html L soup a) = Auction.auction_id a"
  "url (parse_auction_details_from_html L soup a) = url a"
  "number (parse_auction_details_from_html L soup a) =
     or_else (number a) (guess_auction_number (norm_text (get_text '' '' soup)))"
  "city (parse_auction_details_from_html L soup a) =
     or_else (city a) (extract_kv (norm_text (get_text '' '' soup)) city_keys)"
  "yard (parse_auction_details_from_html L soup a) =
     or_else (yard a) (extract_kv (norm_text (get_text '' '' soup)) yard_keys)"
  "organizer (parse_auction_details_from_html L soup a) =
     or_else (organizer a) (extract_kv (norm_text (get_text '' '' soup)) organizer_keys)"
  "status (parse_auction_details_from_html L soup a) =
     or_else (status a) (guess_status (norm_text (get_text '' '' soup)))"
  "Auction.ends_at (parse_auction_details_from_html L soup a) =
     (case Auction.ends_at a of
        None \<Rightarrow> find_ends_at L (norm_text (get_text '' '' soup)) ends_at_labels
      | Some d \<Rightarrow> Some d)"
  by (simp_all add: parse_auction_details_from_html_def Let_def)

text \<open>
  C5 (as amended). The auction returned by \<^verbatim>\<open>parse_auction_details_from_html\<close> has
  the \<^verbatim>\<open>auction_id\<close> and \<^verbatim>\<open>url\<close> of the one given. A string field (\<^verbatim>\<open>number\<close>,
  \<^verbatim>\<open>city\<close>, \<^verbatim>\<open>yard\<close>, \<^verbatim>\<open>organizer\<close>, \<^verbatim>\<open>status\<close>) that holds a non-empty string
  is returned as it is, and so is an \<^verbatim>\<open>ends_at\<close> that is not \<^verbatim>\<open>None\<close>. A field
  that is \<^verbatim>\<open>None\<close> gets what the page yields for it.
\<close>

theorem parse_auction_details_preserves:
  "Auction.auction_id (parse_auction_details_from_html L soup a) = Auction.auction_id a
   \<and> url (parse_auction_details_from_html L soup a) = url a
   \<and> (number a \<noteq> None \<and> number a \<noteq> Some [] \<longrightarrow> number (parse_auction_details_from_html L soup a) = number a)
   \<and> (city a \<noteq> None \<and> city a \<noteq> Some [] \<longrightarrow> city (parse_auction_details_from_html L soup a) = city a)
   \<and> (yard a \<noteq> None \<and> yard a \<noteq> Some [] \<longrightarrow> yard (parse_auction_details_from_html L soup a) = yard a)
   \<and> (organizer a \<noteq> None \<and> organizer a \<noteq> Some [] \<longrightarrow>
        organizer (parse_auction_details_from_html L soup a) = organizer a)
   \<and> (status a \<noteq> None \<and> status a \<noteq> Some [] \<longrightarrow> status (parse_auction_details_from_html L soup a) = status a)
   \<and> (Auction.ends_at a \<noteq> None \<longrightarrow>
        Auction.ends_at (parse_auction_details_from_html L soup a) = Auction.ends_at a)
   \<and> (number a = None \<longrightarrow> number (parse_auction_details_from_html L soup a)
        = guess_auction_number (norm_text (get_text '' '' soup)))
   \<and> (city a = None \<longrightarrow> city (parse_auction_details_from_html L soup a)
        = extract_kv (norm_text (get_text '' '' soup)) city_keys)
   \<and> (yard a = None \<longrightarrow> yard (parse_auction_details_from_html L soup a)
        = extract_kv (norm_text (get_text '' '' soup)) yard_keys)
   \<and> (organizer a = None \<longrightarrow> organizer (parse_auction_details_from_html L soup a)
        = extract_kv (norm_text (get_text '' '' soup)) organizer_keys)
   \<and> (status a = None \<longrightarrow> status (parse_auction_details_from_html L soup a)
        = guess_status (norm_text (get_text '' '' soup)))
   \<and> (Auction.ends_at a = None \<longrightarrow> Auction.ends_at (parse_auction_details_from_html L soup a)
        = find_ends_at L (norm_text (get_text '' '' soup)) ends_at_labels)"
  unfolding parse_auction_details_fields
  by (intro conjI impI) (auto simp: or_else_present or_else_absent split: option.splits)

theorem parse_auction_details_preserves_witness:
  "number discovered = Some ''2842/2026''
   \<and> number (parse_auction_details_from_html no_lib details_page discovered) = Some ''2842/2026''
   \<and> city (parse_auction_details_from_html no_lib details_page discovered) = Some ''Belo Horizonte''
   \<and> yard (parse_auction_details_from_html no_lib details_page discovered) = Some ''Patio Norte''
   \<and> organizer (parse_auction_details_from_html no_lib details_page discovered) = Some ''DETRAN''
   \<and> status (parse_auction_details_from_html no_lib details_page discovered) = Some ''publicado''
   \<and> Auction.ends_at (parse_auction_details_from_html no_lib details_page discovered)
       = Some (Datetime 2026 3 1 10 0 0)
   \<and> number undiscovered = None
   \<and> number (parse_auction_details_from_html no_lib details_page undiscovered)
       = guess_auction_number (norm_text (get_text '' '' details_page))
   \<and> city (parse_auction_details_from_html no_lib details_page undiscovered)
       = extract_kv (norm_text (get_text '' '' details_page)) city_keys
   \<and> yard (parse_auction_details_from_html no_lib details_page undiscovered)
       = extract_kv (norm_text (get_text '' '' details_page)) yard_keys
   \<and> organizer (parse_auction_details_from_html no_lib details_page undiscovered)
       = extract_kv (norm_text (get_text '' '' details_page)) organizer_keys
   \<and> Auction.ends_at (parse_auction_details_from_html no_lib details_page undiscovered)
       = find_ends_at no_lib (norm_text (get_text '' '' details_page)) ends_at_labels"
  using parse_auction_details_preserves [of no_lib details_page discovered]
    parse_auction_details_preserves [of no_lib details_page undiscovered]
  by (simp add: discovered_def undiscovered_def)

text \<open>
  C5 as it is written keeps every field that is set. A field set to the empty string
  is taken by \<^verbatim>\<open>or\<close> as missing: the status \<^verbatim>\<open>""\<close> is replaced by the status read
  from the page.
\<close>

theorem parse_auction_details_empty_status:
  "status undiscovered = Some ''''
   \<and> status (parse_auction_details_from_html no_lib details_page undiscovered) = Some ''aberto''"
proof -
  have "guess_status (norm_text (get_text '' '' details_page)) = Some ''aberto''"
    by code_simp
  then show ?thesis
    by (simp add: parse_auction_details_fields undiscovered_def or_else_def)
qed

section \<open>parsers.py: lot cards\<close>






declare sub_from.simps [simp del]




































lemma parse_lot_cards_None_iff:
  "(parse_lot_cards_from_html L soup aid base = Inr None)
     = (\<forall>el \<in> set (select sel_div_article (soup, [])). \<not> mentions_lote el)"
  by (auto simp: parse_lot_cards_from_html_def list_ex_iff Let_def split: sum.splits)

text \<open>
  C10. When no \<^verbatim>\<open>div\<close> or \<^verbatim>\<open>article\<close> element of the page has a text that contains
  "lote" in any case (the empty document is such a page) the parser returns \<^verbatim>\<open>None\<close>,
  not the empty list, and a caller that iterates over the result, as the page-1 step
  of \<^verbatim>\<open>_crawl_auction_lots_playwright\<close> does, fails with a \<^verbatim>\<open>TypeError\<close>. The parser
  returns \<^verbatim>\<open>None\<close> on exactly these pages.
\<close>

theorem parse_lot_cards_returns_none:
  "((\<forall>el \<in> set (select sel_div_article (soup, [])). \<not> sublist ''lote'' (lower (text_of el)))
      \<longrightarrow> parse_lot_cards_from_html L soup aid base = Inr None
          \<and> (\<not> is_page_done (checkpoint st) aid 1
               \<longrightarrow> process_first_page aid (parse_lot_cards_from_html L soup aid base) st = Inl TypeError))
   \<and> parse_lot_cards_from_html L (document []) aid base = Inr None
   \<and> (parse_lot_cards_from_html L soup aid base = Inr None)
       = (\<forall>el \<in> set (select sel_div_article (soup, [])). \<not> mentions_lote el)"
proof (intro conjI impI)
  assume h: "\<forall>el \<in> set (select sel_div_article (soup, [])). \<not> sublist ''lote'' (lower (text_of el))"
  then show n: "parse_lot_cards_from_html L soup aid base = Inr None"
    by (simp add: parse_lot_cards_None_iff mentions_lote_def)
  assume "\<not> is_page_done (checkpoint st) aid 1"
  with n show "process_first_page aid (parse_lot_cards_from_html L soup aid base) st = Inl TypeError"
    by (simp add: process_first_page_def)
next
  show "parse_lot_cards_from_html L (document []) aid base = Inr None"
    by (simp add: parse_lot_cards_None_iff select_def document_def)
next
  show "(parse_lot_cards_from_html L soup aid base = Inr None)
       = (\<forall>el \<in> set (select sel_div_article (soup, [])). \<not> mentions_lote el)"
    by (rule parse_lot_cards_None_iff)
qed

theorem parse_lot_cards_returns_none_witness:
  "parse_lot_cards_from_html no_lib no_lots_page ''a1'' ''http://example.com'' = Inr None
   \<and> process_first_page ''a1''
        (parse_lot_cards_from_html no_lib no_lots_page ''a1'' ''http://example.com'') fresh_crawl
      = Inl TypeError"
proof -
  have h: "\<forall>el \<in> set (select sel_div_article (no_lots_page, [])). \<not> sublist ''lote'' (lower (text_of el))"
    by code_simp
  have f: "\<not> is_page_done (checkpoint fresh_crawl) ''a1'' 1"
    by (simp add: fresh_crawl_def new_checkpoint_nothing_done)
  from parse_lot_cards_returns_none [of no_lots_page no_lib "''a1''" "''http://example.com''" fresh_crawl] h f
  show ?thesis by blast
qed

end
